theory Spec2Isabelle
  imports
    Complex_Main
    "HOL-Library.Char_ord"
    "HOL-Library.List_Lexorder"
    "HOL-Library.Sublist"
    "HOL-Library.Multiset"
begin

section \<open>The freelance marketplace dashboard (app.py)\<close>

text \<open>
  The program is one script: it reads a workbook into a table, shows three overview
  numbers, lets the user pick a client country, and draws three charts from the
  (possibly filtered) table. This theory embeds the table, the table operations the
  script calls, and the script itself as a function from what the file system
  delivers and what the user picks to what is displayed.
\<close>

subsection \<open>The table\<close>

text \<open>
  One row of the workbook, with the five columns the script reads. A cell of any
  column can be missing (a blank cell of the sheet, which the reader delivers as NaN):
  \<open>None\<close> stands for it. A number that is present is an exact real: the rounding
  of binary floating point is outside this model.
\<close>

record row =
  Price_USD :: "real option"
  client_country :: "string option"
  Skill_Category :: "string option"
  Freelancer_Friction_Index :: "real option"
  Job_Type :: "string option"

type_synonym dataframe = "row list"

subsection \<open>The table operations the script uses\<close>

text \<open>Dropping the missing cells of a column.\<close>

fun dropna :: "'a option list \<Rightarrow> 'a list" where
  "dropna [] = []"
| "dropna (None # cs) = dropna cs"
| "dropna (Some v # cs) = v # dropna cs"

text \<open>\<open>Series.unique()\<close>: the distinct values, in order of first appearance.\<close>

fun unique :: "'a list \<Rightarrow> 'a list" where
  "unique [] = []"
| "unique (x # xs) = x # filter (\<lambda>y. y \<noteq> x) (unique xs)"

text \<open>\<open>Series.nunique()\<close>: the number of distinct values that are not missing.\<close>

definition nunique :: "'a option list \<Rightarrow> nat" where
  "nunique col = length (unique (dropna col))"

text \<open>
  \<open>Series.mean()\<close>: missing cells are skipped; the result is the sum of the cells that
  are present over their count. When no cell is present the library divides nothing
  and answers NaN, here \<open>None\<close>.
\<close>

definition mean :: "real option list \<Rightarrow> real option" where
  "mean col =
     (if dropna col = [] then None
      else Some (sum_list (dropna col) / real (length (dropna col))))"

text \<open>
  \<open>df.groupby(key)\<close>: the groups are the values of the key column that are not
  missing, each once, sorted. Rows whose key is missing belong to no group.
\<close>

definition group_keys :: "dataframe \<Rightarrow> (row \<Rightarrow> string option) \<Rightarrow> string list" where
  "group_keys df key = sort (unique (dropna (map key df)))"

text \<open>
  \<open>df.groupby(key)[col].mean().reset_index()\<close>: one line per group, with the mean of
  the column over the rows of the group. A group keeps its line when all its cells of
  the column are missing; its mean is then NaN.
\<close>

definition groupby_mean ::
  "dataframe \<Rightarrow> (row \<Rightarrow> string option) \<Rightarrow> (row \<Rightarrow> real option) \<Rightarrow>
     (string \<times> real option) list" where
  "groupby_mean df key col =
     map (\<lambda>k. (k, mean (map col (filter (\<lambda>r. key r = Some k) df)))) (group_keys df key)"

text \<open>
  \<open>pd.merge(left, right, on=key)\<close>: the inner join. Every left row is paired with every
  right row of the same key, in the order of the left rows.
\<close>

definition merge_on :: "('k \<times> 'a) list \<Rightarrow> ('k \<times> 'b) list \<Rightarrow> ('k \<times> 'a \<times> 'b) list" where
  "merge_on left right =
     concat (map (\<lambda>(k, a). map (\<lambda>(k', b). (k, a, b)) (filter (\<lambda>(k', b). k' = k) right)) left)"

text \<open>
  Ordering a table of counts from the largest count down. Lines of equal count keep the
  order they had; the library promises no order among them, and no statement below
  depends on one (see \<open>top_any_tie_order\<close>).
\<close>

definition sort_desc :: "('a \<times> nat) list \<Rightarrow> ('a \<times> nat) list" where
  "sort_desc tbl = sort_key (\<lambda>(k, c). - int c) tbl"

text \<open>
  \<open>Series.value_counts()\<close>: missing cells are not counted; every distinct value gets the
  number of its occurrences; largest count first.
\<close>

definition value_counts :: "'a option list \<Rightarrow> ('a \<times> nat) list" where
  "value_counts col =
     (let vs = dropna col in sort_desc (map (\<lambda>k. (k, count_list vs k)) (unique vs)))"

text \<open>\<open>Series.nlargest(n)\<close>: the \<open>n\<close> largest entries, largest first, the first ones on ties.\<close>

definition nlargest :: "nat \<Rightarrow> ('a \<times> nat) list \<Rightarrow> ('a \<times> nat) list" where
  "nlargest n s = take n (sort_desc s)"

text \<open>
  \<open>col == value\<close>, cell by cell: a missing cell equals nothing, and nothing equals a
  missing value. \<open>df[mask]\<close> keeps the rows whose position is marked.
\<close>

definition eq_mask :: "string option list \<Rightarrow> string option \<Rightarrow> bool list" where
  "eq_mask col v = map (\<lambda>c. case (c, v) of (Some a, Some b) \<Rightarrow> a = b | _ \<Rightarrow> False) col"

definition boolean_index :: "dataframe \<Rightarrow> bool list \<Rightarrow> dataframe" where
  "boolean_index df marks = map fst (filter snd (zip df marks))"

subsection \<open>The filter (lines 71 to 75)\<close>

definition all_countries :: string where
  "all_countries = ''All Countries''"

definition df_filtered :: "dataframe \<Rightarrow> string option \<Rightarrow> dataframe" where
  "df_filtered df selected_country =
     (if selected_country \<noteq> Some all_countries
      then boolean_index df (eq_mask (map client_country df) selected_country)
      else df)"

subsection \<open>The aggregations (lines 78 to 80, 128, 154)\<close>

definition avg_price_by_skill :: "dataframe \<Rightarrow> (string \<times> real option) list" where
  "avg_price_by_skill df = groupby_mean df Skill_Category Price_USD"

definition avg_friction_by_skill :: "dataframe \<Rightarrow> (string \<times> real option) list" where
  "avg_friction_by_skill df = groupby_mean df Skill_Category Freelancer_Friction_Index"

definition market_analysis :: "dataframe \<Rightarrow> (string \<times> real option \<times> real option) list" where
  "market_analysis df = merge_on (avg_price_by_skill df) (avg_friction_by_skill df)"

definition country_counts :: "dataframe \<Rightarrow> (string \<times> nat) list" where
  "country_counts df = nlargest 10 (value_counts (map client_country df))"

definition job_type_counts :: "dataframe \<Rightarrow> (string \<times> nat) list" where
  "job_type_counts df = value_counts (map Job_Type df)"

subsection \<open>The overview numbers (lines 43 to 45)\<close>

definition total_jobs :: "dataframe \<Rightarrow> nat" where
  "total_jobs df = length df"

definition avg_price :: "dataframe \<Rightarrow> real option" where
  "avg_price df = mean (map Price_USD df)"

definition unique_countries :: "dataframe \<Rightarrow> nat" where
  "unique_countries df = nunique (map client_country df)"

subsection \<open>The script\<close>

text \<open>
  What reading the workbook can do: the file is not there, reading fails in some other
  way (no permission, not a workbook), or a table comes back.
\<close>

datatype source = File_missing | Read_failure | Workbook dataframe

datatype exn = Read_error | Type_error | Value_error

text \<open>
  What the script puts on the page, in order. Only the calls that carry data or report
  a failure are kept; headings, separators and the fixed commentary are left out. The
  overview entry holds the three numbers as computed, before they are formatted; a
  chart entry holds the table handed to the plotting library. Of that library only
  the refusal to build the first chart is modelled (\<open>px_scatter\<close> below), not its
  drawing.
\<close>

datatype ui =
    St_error
  | St_metrics nat "real option" nat
  | St_viewing "string option"
  | Scatter "(string \<times> real option \<times> real option) list"
  | Bar "(string \<times> nat) list"
  | Pie "(string \<times> nat) list"

datatype status = Finished | Stopped | Raised exn

text \<open>
  \<open>load_data\<close> (lines 20 to 28) catches the missing file only: it reports it and
  returns an empty table. Any other failure of the reader leaves the function as an
  exception. The function is cached by the framework; one run that reads the file is
  what is modelled here.
\<close>

fun load_data :: "source \<Rightarrow> exn + (ui list \<times> dataframe)" where
  "load_data (Workbook data) = Inr ([], data)"
| "load_data File_missing = Inr ([St_error], [])"
| "load_data Read_failure = Inl Read_error"

text \<open>
  The choices of the select box (line 67): the sentinel, then the distinct countries
  sorted. Python cannot order a missing cell (a float) against a string, so sorting
  raises as soon as a missing cell stands beside another value.
\<close>

definition country_options :: "dataframe \<Rightarrow> exn + string option list" where
  "country_options df =
     (let u = unique (map client_country df) in
      if None \<in> set u
      then (if length u \<le> 1 then Inr (Some all_countries # u) else Inl Type_error)
      else Inr (Some all_countries # map Some (sort (dropna u))))"

text \<open>
  \<open>px.scatter(market_analysis, ..., size='Price_USD')\<close> (line 84): the plotting library
  takes the mean prices as marker sizes and refuses a size that is negative or NaN.
\<close>

definition px_scatter :: "(string \<times> real option \<times> real option) list \<Rightarrow> exn + ui" where
  "px_scatter tbl =
     (if list_ex (\<lambda>(k, p, f). case p of None \<Rightarrow> True | Some v \<Rightarrow> v < 0) tbl
      then Inl Value_error
      else Inr (Scatter tbl))"

text \<open>
  The part of the script below the select box (lines 70 to 166): the filter, the
  note on the page when a country is selected, and the three charts. When the first
  chart cannot be built the run ends there, with no chart on the page.
\<close>

definition charts :: "dataframe \<Rightarrow> string option \<Rightarrow> ui list \<times> status" where
  "charts df selected_country =
     (let filtered = df_filtered df selected_country;
          viewing = (if selected_country \<noteq> Some all_countries
                     then [St_viewing selected_country] else [])
      in (case px_scatter (market_analysis filtered) of
            Inl e \<Rightarrow> (viewing, Raised e)
          | Inr fig1 \<Rightarrow>
              (viewing @ [fig1, Bar (country_counts filtered), Pie (job_type_counts filtered)],
               Finished)))"

text \<open>
  One run of the script: what it shows, and how it ends. \<open>selected_country\<close> is what
  the select box returns, the entry of \<open>country_options\<close> the user picked; the script
  is defined here for any value in its place.
\<close>

definition app :: "source \<Rightarrow> string option \<Rightarrow> ui list \<times> status" where
  "app src selected_country =
     (case load_data src of
        Inl e \<Rightarrow> ([], Raised e)
      | Inr (shown, df) \<Rightarrow>
          (if df = [] then (shown, Stopped)
           else
             (let overview =
                    shown @ [St_metrics (total_jobs df) (avg_price df) (unique_countries df)]
              in (case country_options df of
                    Inl e \<Rightarrow> (overview, Raised e)
                  | Inr opts \<Rightarrow>
                      (overview @ fst (charts df selected_country),
                       snd (charts df selected_country))))))"

subsection \<open>Tables used as examples\<close>

text \<open>Three postings, two from the US and one from India.\<close>

definition scenario :: dataframe where
  "scenario =
     [\<lparr>Price_USD = Some 100, client_country = Some ''US'', Skill_Category = Some ''Writing'',
       Freelancer_Friction_Index = Some 0.8, Job_Type = Some ''Fixed''\<rparr>,
      \<lparr>Price_USD = Some 300, client_country = Some ''US'', Skill_Category = Some ''Dev'',
       Freelancer_Friction_Index = Some 0.2, Job_Type = Some ''Hourly''\<rparr>,
      \<lparr>Price_USD = Some 200, client_country = Some ''IN'', Skill_Category = Some ''Dev'',
       Freelancer_Friction_Index = Some 0.3, Job_Type = Some ''Fixed''\<rparr>]"

text \<open>Two postings, one of them from a client whose country cell reads "All Countries".\<close>

definition sentinel_in_data :: dataframe where
  "sentinel_in_data =
     [\<lparr>Price_USD = Some 100, client_country = Some ''US'', Skill_Category = Some ''Writing'',
       Freelancer_Friction_Index = Some 0.8, Job_Type = Some ''Fixed''\<rparr>,
      \<lparr>Price_USD = Some 50, client_country = Some ''All Countries'', Skill_Category = Some ''Dev'',
       Freelancer_Friction_Index = Some 0.5, Job_Type = Some ''Fixed''\<rparr>]"

text \<open>One posting whose price cell is blank.\<close>

definition blank_price :: dataframe where
  "blank_price =
     [\<lparr>Price_USD = None, client_country = Some ''US'', Skill_Category = Some ''Writing'',
       Freelancer_Friction_Index = Some 0.8, Job_Type = Some ''Fixed''\<rparr>]"

text \<open>One posting whose job type cell is blank.\<close>

definition blank_job_type :: dataframe where
  "blank_job_type =
     [\<lparr>Price_USD = Some 100, client_country = Some ''US'', Skill_Category = Some ''Writing'',
       Freelancer_Friction_Index = Some 0.8, Job_Type = None\<rparr>]"

section \<open>Facts about the table operations\<close>

lemma set_dropna: "set (dropna cs) = {v. Some v \<in> set cs}"
  by (induction cs rule: dropna.induct) auto

lemma length_dropna: "length (dropna cs) = length (filter (\<lambda>c. c \<noteq> None) cs)"
  by (induction cs rule: dropna.induct) auto

lemma set_unique: "set (unique xs) = set xs"
  by (induction xs) auto

lemma distinct_unique: "distinct (unique xs)"
  by (induction xs) (auto simp: set_unique)

lemma length_unique: "length (unique xs) = card (set xs)"
  using distinct_card[OF distinct_unique, of xs] by (simp add: set_unique)

lemma card_keys: "card {c. Some c \<in> set (map key df)} = length (unique (dropna (map key df)))"
  by (simp add: length_unique set_dropna)

text \<open>The occurrences of a value in a key column are the rows that carry it.\<close>

lemma count_list_dropna:
  "count_list (dropna (map key df)) k = length (filter (\<lambda>r. key r = Some k) df)"
proof (induction df)
  case Nil
  show ?case by simp
next
  case (Cons r df)
  then show ?case by (cases "key r") auto
qed

text \<open>Counting every distinct value once accounts for the whole column.\<close>

lemma sum_counts_unique: "sum_list (map (count_list xs) (unique xs)) = length xs"
proof -
  have "sum_list (map (count_list xs) (unique xs)) = sum (count_list xs) (set (unique xs))"
    by (rule sum_list_distinct_conv_sum_set[OF distinct_unique])
  also have "\<dots> = length xs"
    by (simp add: set_unique sum_count_set)
  finally show ?thesis .
qed

text \<open>When no cell of a column is missing, the mean is over the whole column.\<close>

lemma dropna_all_present: "None \<notin> set col \<Longrightarrow> dropna col = map the col"
  by (induction col rule: dropna.induct) auto

lemma mean_all_present:
  "None \<notin> set (map col rows) \<Longrightarrow> rows \<noteq> [] \<Longrightarrow>
     mean (map col rows) = Some (sum_list (map (the \<circ> col) rows) / real (length rows))"
  using dropna_all_present[of "map col rows"] by (simp add: mean_def)

subsection \<open>Ordering by count\<close>

lemma sorted_sort_desc: "sorted_wrt (\<lambda>a b. snd b \<le> snd a) (sort_desc tbl)"
proof -
  have "sorted (map (\<lambda>(k, c). - int c) (sort_desc tbl))"
    unfolding sort_desc_def by (rule sorted_sort_key)
  then show ?thesis
    by (simp add: sorted_map sorted_wrt_iff_nth_less case_prod_beta)
qed

lemma sort_desc_idem: "sort_desc (sort_desc tbl) = sort_desc tbl"
  unfolding sort_desc_def by (rule sort_key_id_if_sorted) (rule sorted_sort_key)

lemma set_sort_desc: "set (sort_desc tbl) = set tbl"
  by (simp add: sort_desc_def)

lemma length_sort_desc: "length (sort_desc tbl) = length tbl"
  by (simp add: sort_desc_def)

lemma sum_snd_sort_desc: "sum_list (map snd (sort_desc tbl)) = sum_list (map snd tbl)"
proof -
  have "mset (sort_desc tbl) = mset tbl"
    by (simp add: sort_desc_def)
  then have "mset (map snd (sort_desc tbl)) = mset (map snd tbl)"
    by simp
  then show ?thesis
    by (metis sum_mset_sum_list)
qed

text \<open>
  Whatever order the lines of equal count come in, the first \<open>n\<close> lines of a table
  ordered by count are at most \<open>n\<close>, ordered, and all the lines when there are no
  more than \<open>n\<close>.
\<close>

lemma top_any_tie_order:
  assumes "mset t = mset tbl" and "sorted_wrt (\<lambda>a b. snd b \<le> snd a) t"
  shows "length (take n t) \<le> n
       \<and> sorted_wrt (\<lambda>a b. snd b \<le> snd a) (take n t)
       \<and> (length tbl \<le> n \<longrightarrow> set (take n t) = set tbl)"
proof -
  from assms(1) have "length t = length tbl" and "set t = set tbl"
    by (metis size_mset, metis set_mset_mset)
  with assms(2) show ?thesis
    by (simp add: sorted_wrt_take)
qed

lemma value_counts_table:
  "value_counts (map key df) =
     sort_desc (map (\<lambda>k. (k, length (filter (\<lambda>r. key r = Some k) df)))
                 (unique (dropna (map key df))))"
  by (simp add: value_counts_def count_list_dropna)

lemma sum_value_counts:
  "sum_list (map snd (value_counts col)) = length (filter (\<lambda>c. c \<noteq> None) col)"
proof -
  have "sum_list (map snd (value_counts col)) =
          sum_list (map (count_list (dropna col)) (unique (dropna col)))"
    by (simp add: value_counts_def Let_def sum_snd_sort_desc comp_def)
  then show ?thesis
    by (simp add: sum_counts_unique length_dropna)
qed

subsection \<open>Selecting rows\<close>

lemma boolean_index_eq_mask:
  "boolean_index df (eq_mask (map client_country df) (Some v)) =
     filter (\<lambda>r. client_country r = Some v) df"
  by (induction df) (auto simp: boolean_index_def eq_mask_def split: option.splits)

subsection \<open>Groups and the join\<close>

lemma distinct_group_keys: "distinct (group_keys df key)"
  by (simp add: group_keys_def distinct_unique)

lemma set_group_keys: "set (group_keys df key) = {c. \<exists>r\<in>set df. key r = Some c}"
  by (auto simp: group_keys_def set_unique set_dropna intro: rev_image_eqI)

lemma map_of_table:
  "map_of (map (\<lambda>k. (k, h k)) ks) c = (if c \<in> set ks then Some (h c) else None)"
  by (induction ks) auto

lemma fst_groupby_mean: "map fst (groupby_mean df key col) = group_keys df key"
  by (simp add: groupby_mean_def comp_def)

lemma map_of_groupby_mean:
  "map_of (groupby_mean df key col) k =
     (if k \<in> set (group_keys df key)
      then Some (mean (map col (filter (\<lambda>r. key r = Some k) df))) else None)"
  unfolding groupby_mean_def by (rule map_of_table)

text \<open>In a table with one line per key, a key selects exactly its own line.\<close>

lemma filter_key_table:
  "distinct ks \<Longrightarrow> k \<in> set ks \<Longrightarrow>
     filter (\<lambda>(k', b). k' = k) (map (\<lambda>k. (k, g k)) ks) = [(k, g k)]"
proof (induction ks)
  case Nil
  then show ?case by simp
next
  case (Cons x ks)
  show ?case
  proof (cases "x = k")
    case True
    with Cons.prems have "k \<notin> set ks" by simp
    then have "filter (\<lambda>(k', b). k' = k) (map (\<lambda>k. (k, g k)) ks) = []"
      by (auto simp: filter_empty_conv)
    with True show ?thesis by simp
  next
    case False
    with Cons show ?thesis by simp
  qed
qed

text \<open>Joining two tables over the same keys pairs the two values of every key.\<close>

lemma merge_on_tables:
  "distinct ks \<Longrightarrow> set ls \<subseteq> set ks \<Longrightarrow>
     merge_on (map (\<lambda>k. (k, f k)) ls) (map (\<lambda>k. (k, g k)) ks) = map (\<lambda>k. (k, f k, g k)) ls"
  by (induction ls) (simp_all add: merge_on_def filter_key_table)

lemma market_analysis_table:
  "market_analysis df =
     map (\<lambda>k. (k, mean (map Price_USD (filter (\<lambda>r. Skill_Category r = Some k) df)),
                  mean (map Freelancer_Friction_Index
                          (filter (\<lambda>r. Skill_Category r = Some k) df))))
       (group_keys df Skill_Category)"
  unfolding market_analysis_def avg_price_by_skill_def avg_friction_by_skill_def groupby_mean_def
  by (rule merge_on_tables) (simp_all add: distinct_group_keys)

subsection \<open>The runs of the script\<close>

lemma app_Workbook:
  "df \<noteq> [] \<Longrightarrow>
     app (Workbook df) sel =
       (case country_options df of
          Inl e \<Rightarrow> ([St_metrics (total_jobs df) (avg_price df) (unique_countries df)], Raised e)
        | Inr opts \<Rightarrow>
            (St_metrics (total_jobs df) (avg_price df) (unique_countries df) # fst (charts df sel),
             snd (charts df sel)))"
  by (simp add: app_def split: sum.splits)

lemma app_empty: "app (Workbook []) sel = ([], Stopped)"
  by (simp add: app_def)

lemma app_missing: "app File_missing sel = ([St_error], Stopped)"
  by (simp add: app_def)

lemma app_failure: "app Read_failure sel = ([], Raised Read_error)"
  by (simp add: app_def)

lemma no_metrics_in_charts: "St_metrics n a u \<notin> set (fst (charts df sel))"
  by (auto simp: charts_def px_scatter_def Let_def split: sum.splits if_splits)

text \<open>The overview numbers are on the page only when a table with rows was loaded.\<close>

lemma metrics_shown:
  "St_metrics n a u \<in> set (fst (app src sel)) \<Longrightarrow>
     \<exists>df. src = Workbook df \<and> df \<noteq> []
        \<and> n = total_jobs df \<and> a = avg_price df \<and> u = unique_countries df"
proof (cases src)
  case File_missing
  assume "St_metrics n a u \<in> set (fst (app src sel))"
  with File_missing show ?thesis by (simp add: app_missing)
next
  case Read_failure
  assume "St_metrics n a u \<in> set (fst (app src sel))"
  with Read_failure show ?thesis by (simp add: app_failure)
next
  case (Workbook df)
  assume m: "St_metrics n a u \<in> set (fst (app src sel))"
  show ?thesis
  proof (cases "df = []")
    case True
    with m Workbook show ?thesis by (simp add: app_empty)
  next
    case False
    with m Workbook show ?thesis
      by (auto simp: app_Workbook no_metrics_in_charts split: sum.splits)
  qed
qed

lemmas filter_defs = df_filtered_def all_countries_def boolean_index_def eq_mask_def

lemmas metric_defs = total_jobs_def avg_price_def unique_countries_def nunique_def mean_def

lemmas agg_defs = market_analysis_def avg_price_by_skill_def avg_friction_by_skill_def
  groupby_mean_def group_keys_def merge_on_def mean_def

lemmas count_defs = country_counts_def job_type_counts_def value_counts_def nlargest_def
  sort_desc_def

section \<open>The filter\<close>

text \<open>
  C1, as stated, fails when the data itself holds the sentinel. In the table
  \<open>sentinel_in_data\<close> the value "All Countries" is present in the country column
  and among the choices of the select box; selecting it takes the branch meant for no
  selection, and the posting from the US comes back with the rest.
\<close>

theorem df_filtered_sentinel_in_data:
  "Some ''All Countries'' \<in> set (map client_country sentinel_in_data)
   \<and> country_options sentinel_in_data =
       Inr [Some ''All Countries'', Some ''All Countries'', Some ''US'']
   \<and> df_filtered sentinel_in_data (Some ''All Countries'') = sentinel_in_data
   \<and> map client_country (df_filtered sentinel_in_data (Some ''All Countries'')) =
       [Some ''US'', Some ''All Countries'']"
  by (simp add: sentinel_in_data_def country_options_def filter_defs)

text \<open>
  C1, amended. For every table and every value \<open>v\<close> present in its country column
  other than the text "All Countries", the filter returns exactly the rows whose
  country is \<open>v\<close>, in their original order, and no more rows than the table has.
\<close>

theorem df_filtered_country:
  assumes "Some v \<in> set (map client_country df)" and "v \<noteq> ''All Countries''"
  shows "df_filtered df (Some v) = filter (\<lambda>r. client_country r = Some v) df
       \<and> subseq (df_filtered df (Some v)) df
       \<and> length (df_filtered df (Some v)) \<le> length df"
  using assms by (simp add: df_filtered_def all_countries_def boolean_index_eq_mask)

text \<open>In the three postings, selecting the US keeps the first two.\<close>

theorem df_filtered_country_witness:
  "Some ''US'' \<in> set (map client_country scenario)
   \<and> ''US'' \<noteq> ''All Countries''
   \<and> df_filtered scenario (Some ''US'') = take 2 scenario
   \<and> subseq (df_filtered scenario (Some ''US'')) scenario
   \<and> length (df_filtered scenario (Some ''US'')) \<le> length scenario"
proof -
  have present: "Some ''US'' \<in> set (map client_country scenario)"
    by (simp add: scenario_def)
  have other: "''US'' \<noteq> ''All Countries''"
    by simp
  have rows: "filter (\<lambda>r. client_country r = Some ''US'') scenario = take 2 scenario"
    by (simp add: scenario_def)
  from df_filtered_country[OF present other]
  have kept: "df_filtered scenario (Some ''US'') = filter (\<lambda>r. client_country r = Some ''US'') scenario"
    and sub: "subseq (df_filtered scenario (Some ''US'')) scenario"
    and len: "length (df_filtered scenario (Some ''US'')) \<le> length scenario"
    by blast+
  from kept rows have "df_filtered scenario (Some ''US'') = take 2 scenario"
    by (rule trans)
  with present other sub len show ?thesis
    by blast
qed

text \<open>
  C2. With the sentinel selected, the filter returns the table it was given: the same
  rows in the same order.
\<close>

theorem df_filtered_all_countries:
  "df_filtered df (Some ''All Countries'') = df"
  by (simp add: df_filtered_def all_countries_def)

section \<open>The category table\<close>




text \<open>
  C9. The category table has exactly one line per category present in the table it is
  computed from: the two grouped tables have the same keys in the same order, the
  join keeps those keys, each once, and every line of the join carries the mean price
  and the mean friction index that the grouped tables give for its own category.
\<close>

theorem market_analysis_one_row_per_category:
  "map fst (avg_price_by_skill df) = map fst (avg_friction_by_skill df)
   \<and> map fst (market_analysis df) = map fst (avg_price_by_skill df)
   \<and> distinct (map fst (market_analysis df))
   \<and> set (map fst (market_analysis df)) = {c. \<exists>r\<in>set df. Skill_Category r = Some c}
   \<and> (\<forall>k p f. (k, p, f) \<in> set (market_analysis df) \<longrightarrow>
          map_of (avg_price_by_skill df) k = Some p \<and>
          map_of (avg_friction_by_skill df) k = Some f)"
proof -
  have keys: "map fst (market_analysis df) = group_keys df Skill_Category"
    by (simp add: market_analysis_table comp_def)
  have pairs: "map_of (avg_price_by_skill df) k = Some p \<and> map_of (avg_friction_by_skill df) k = Some f"
    if "(k, p, f) \<in> set (market_analysis df)" for k p f
    using that
    by (auto simp: market_analysis_table avg_price_by_skill_def avg_friction_by_skill_def
        map_of_groupby_mean)
  show ?thesis
    using pairs
    by (simp add: keys avg_price_by_skill_def avg_friction_by_skill_def fst_groupby_mean
        distinct_group_keys set_group_keys)
qed

text \<open>The three postings have two categories, and the table has the two lines.\<close>

theorem market_analysis_one_row_per_category_witness:
  "map fst (market_analysis scenario) = [''Dev'', ''Writing'']
   \<and> map fst (avg_price_by_skill scenario) = [''Dev'', ''Writing'']
   \<and> map fst (avg_friction_by_skill scenario) = [''Dev'', ''Writing'']
   \<and> (''Dev'', Some 250, Some 0.25) \<in> set (market_analysis scenario)
   \<and> map_of (avg_price_by_skill scenario) ''Dev'' = Some (Some 250)
   \<and> map_of (avg_friction_by_skill scenario) ''Dev'' = Some (Some 0.25)"
proof -
  have tbl: "market_analysis scenario =
      [(''Dev'', Some 250, Some 0.25), (''Writing'', Some 100, Some 0.8)]"
    by (simp add: scenario_def agg_defs)
  have line: "(''Dev'', Some 250, Some 0.25) \<in> set (market_analysis scenario)"
    by (simp add: tbl)
  from market_analysis_one_row_per_category[of scenario] line
  have "map fst (avg_price_by_skill scenario) = map fst (avg_friction_by_skill scenario)"
    and "map fst (market_analysis scenario) = map fst (avg_price_by_skill scenario)"
    and "map_of (avg_price_by_skill scenario) ''Dev'' = Some (Some 250)"
    and "map_of (avg_friction_by_skill scenario) ''Dev'' = Some (Some 0.25)"
    by blast+
  with line show ?thesis
    by (simp add: tbl)
qed

section \<open>The counts\<close>

text \<open>
  C4. The country chart of any table has at most 10 lines, ordered from the largest
  count down; and when the table has at most 10 distinct countries, every one of them
  is on the chart with the number of its rows.
\<close>

theorem country_counts_top10:
  "length (country_counts df) \<le> 10
   \<and> sorted_wrt (\<lambda>a b. snd b \<le> snd a) (country_counts df)
   \<and> (card {c. Some c \<in> set (map client_country df)} \<le> 10 \<longrightarrow>
        (\<forall>c. Some c \<in> set (map client_country df) \<longrightarrow>
           (c, length (filter (\<lambda>r. client_country r = Some c) df)) \<in> set (country_counts df)))"
proof -
  let ?tbl = "map (\<lambda>k. (k, length (filter (\<lambda>r. client_country r = Some k) df)))
                (unique (dropna (map client_country df)))"
  have cc: "country_counts df = take 10 (sort_desc ?tbl)"
    by (simp add: country_counts_def nlargest_def value_counts_table sort_desc_idem)
  have len: "length (country_counts df) \<le> 10"
    by (simp add: cc)
  have srt: "sorted_wrt (\<lambda>a b. snd b \<le> snd a) (country_counts df)"
    unfolding cc by (rule sorted_wrt_take) (rule sorted_sort_desc)
  have all: "(c, length (filter (\<lambda>r. client_country r = Some c) df)) \<in> set (country_counts df)"
    if few: "card {c. Some c \<in> set (map client_country df)} \<le> 10"
      and c: "Some c \<in> set (map client_country df)" for c
  proof -
    from few have "length (sort_desc ?tbl) \<le> 10"
      using card_keys[of client_country df] by (simp add: length_sort_desc)
    then have "country_counts df = sort_desc ?tbl"
      by (simp add: cc)
    moreover from c have "c \<in> set (unique (dropna (map client_country df)))"
      by (simp add: set_unique set_dropna)
    ultimately show ?thesis
      by (simp add: set_sort_desc)
  qed
  from len srt all show ?thesis by blast
qed

text \<open>The three postings come from two countries: two rows from the US, one from India.\<close>

theorem country_counts_top10_witness:
  "card {c. Some c \<in> set (map client_country scenario)} \<le> 10
   \<and> Some ''US'' \<in> set (map client_country scenario)
   \<and> Some ''IN'' \<in> set (map client_country scenario)
   \<and> length (country_counts scenario) \<le> 10
   \<and> sorted_wrt (\<lambda>a b. snd b \<le> snd a) (country_counts scenario)
   \<and> (''US'', 2) \<in> set (country_counts scenario)
   \<and> (''IN'', 1) \<in> set (country_counts scenario)"
proof -
  have few: "card {c. Some c \<in> set (map client_country scenario)} \<le> 10"
    using card_keys[of client_country scenario] by (simp add: scenario_def)
  have us: "Some ''US'' \<in> set (map client_country scenario)"
    and ind: "Some ''IN'' \<in> set (map client_country scenario)"
    by (simp_all add: scenario_def)
  have n_us: "length (filter (\<lambda>r. client_country r = Some ''US'') scenario) = 2"
    and n_ind: "length (filter (\<lambda>r. client_country r = Some ''IN'') scenario) = 1"
    by (simp_all add: scenario_def)
  from country_counts_top10[of scenario] few
  have len: "length (country_counts scenario) \<le> 10"
    and srt: "sorted_wrt (\<lambda>a b. snd b \<le> snd a) (country_counts scenario)"
    and all: "\<And>c. Some c \<in> set (map client_country scenario) \<Longrightarrow>
        (c, length (filter (\<lambda>r. client_country r = Some c) scenario)) \<in> set (country_counts scenario)"
    by blast+
  from all[OF us] n_us have "(''US'', 2) \<in> set (country_counts scenario)"
    by simp
  moreover from all[OF ind] n_ind have "(''IN'', 1) \<in> set (country_counts scenario)"
    by simp
  ultimately show ?thesis
    using few us ind len srt by blast
qed

text \<open>
  C5, as stated, fails on a table with a blank job type: the count table leaves the
  blank cell out, so its counts sum to 0 while the table has one row.
\<close>

theorem job_type_counts_blank:
  "job_type_counts blank_job_type = []
   \<and> sum_list (map snd (job_type_counts blank_job_type)) = 0
   \<and> length blank_job_type = 1"
  by (simp add: blank_job_type_def count_defs)

text \<open>
  C5, amended. For every table, the empty one included, the category table is defined,
  and it is the empty table for the empty table. The counts of the job type table sum
  to the number of rows whose job type is not missing, which is the number of rows of
  the table when no job type is missing.
\<close>

theorem aggregations_total:
  "market_analysis [] = []
   \<and> sum_list (map snd (job_type_counts df)) = length (filter (\<lambda>r. Job_Type r \<noteq> None) df)
   \<and> (None \<notin> set (map Job_Type df) \<longrightarrow> sum_list (map snd (job_type_counts df)) = length df)"
proof -
  have empty: "market_analysis [] = []"
    by (simp add: market_analysis_table group_keys_def)
  have total: "sum_list (map snd (job_type_counts df)) = length (filter (\<lambda>r. Job_Type r \<noteq> None) df)"
    by (simp add: job_type_counts_def sum_value_counts filter_map comp_def)
  have "length (filter (\<lambda>r. Job_Type r \<noteq> None) df) = length df" if "None \<notin> set (map Job_Type df)"
  proof -
    have "Job_Type r \<noteq> None" if "r \<in> set df" for r
    proof
      assume "Job_Type r = None"
      with \<open>r \<in> set df\<close> have "None \<in> set (map Job_Type df)"
        by (metis imageI set_map)
      with \<open>None \<notin> set (map Job_Type df)\<close> show False ..
    qed
    then show ?thesis by simp
  qed
  with empty total show ?thesis by metis
qed

text \<open>Every one of the three postings has a job type, and the counts sum to 3.\<close>

theorem aggregations_total_witness:
  "None \<notin> set (map Job_Type scenario)
   \<and> sum_list (map snd (job_type_counts scenario)) = 3
   \<and> length scenario = 3
   \<and> market_analysis [] = []"
proof -
  have present: "None \<notin> set (map Job_Type scenario)"
    by (simp add: scenario_def)
  have three: "length scenario = 3"
    by (simp add: scenario_def)
  from aggregations_total[of scenario] present
  have "sum_list (map snd (job_type_counts scenario)) = length scenario"
    and "market_analysis [] = []"
    by blast+
  with present three show ?thesis
    by simp
qed

section \<open>The overview and the runs of the script\<close>

text \<open>
  C6. The three overview numbers are functions of the loaded table alone: the number
  of its rows, the mean of the prices present in all its rows (the mean over all rows
  when no price is missing), and the number of its distinct countries. Whatever is
  selected in the filter, a run that loaded a table with rows shows these numbers
  first, and shows no other overview numbers.
\<close>

theorem overview_of_unfiltered:
  "total_jobs df = length df
   \<and> avg_price df =
       (if dropna (map Price_USD df) = [] then None
        else Some (sum_list (dropna (map Price_USD df))
                   / real (length (dropna (map Price_USD df)))))
   \<and> (df \<noteq> [] \<and> None \<notin> set (map Price_USD df) \<longrightarrow>
        avg_price df = Some (sum_list (map (the \<circ> Price_USD) df) / real (length df)))
   \<and> unique_countries df = card {c. Some c \<in> set (map client_country df)}
   \<and> (df \<noteq> [] \<longrightarrow>
        take 1 (fst (app (Workbook df) sel)) =
          [St_metrics (total_jobs df) (avg_price df) (unique_countries df)])
   \<and> (\<forall>n a u. St_metrics n a u \<in> set (fst (app (Workbook df) sel)) \<longrightarrow>
          n = total_jobs df \<and> a = avg_price df \<and> u = unique_countries df)"
proof -
  have nums: "total_jobs df = length df"
    "avg_price df =
       (if dropna (map Price_USD df) = [] then None
        else Some (sum_list (dropna (map Price_USD df))
                   / real (length (dropna (map Price_USD df)))))"
    "unique_countries df = card {c. Some c \<in> set (map client_country df)}"
    using card_keys[of client_country df] by (simp_all add: metric_defs)
  have whole: "avg_price df = Some (sum_list (map (the \<circ> Price_USD) df) / real (length df))"
    if "df \<noteq> []" and "None \<notin> set (map Price_USD df)"
    unfolding avg_price_def using that by (simp add: mean_all_present)
  have first: "take 1 (fst (app (Workbook df) sel)) =
       [St_metrics (total_jobs df) (avg_price df) (unique_countries df)]" if "df \<noteq> []"
    using that by (simp add: app_Workbook split: sum.splits)
  have only: "n = total_jobs df \<and> a = avg_price df \<and> u = unique_countries df"
    if "St_metrics n a u \<in> set (fst (app (Workbook df) sel))" for n a u
    using metrics_shown[OF that] by auto
  from nums whole first only show ?thesis by blast
qed

text \<open>
  The three postings: 3 rows, mean price 200, 2 countries, with the US selected and with
  nothing selected.
\<close>

theorem overview_of_unfiltered_witness:
  "scenario \<noteq> []
   \<and> take 1 (fst (app (Workbook scenario) (Some ''US''))) = [St_metrics 3 (Some 200) 2]
   \<and> take 1 (fst (app (Workbook scenario) (Some ''All Countries''))) = [St_metrics 3 (Some 200) 2]
   \<and> St_metrics 3 (Some 200) 2 \<in> set (fst (app (Workbook scenario) (Some ''US'')))"
proof -
  have rows: "scenario \<noteq> []"
    by (simp add: scenario_def)
  have nums: "total_jobs scenario = 3" "avg_price scenario = Some 200" "unique_countries scenario = 2"
    by (simp_all add: scenario_def metric_defs)
  from overview_of_unfiltered[of scenario "Some ''US''"] rows nums
  have us: "take 1 (fst (app (Workbook scenario) (Some ''US''))) = [St_metrics 3 (Some 200) 2]"
    by simp
  from overview_of_unfiltered[of scenario "Some ''All Countries''"] rows nums
  have all: "take 1 (fst (app (Workbook scenario) (Some ''All Countries''))) = [St_metrics 3 (Some 200) 2]"
    by simp
  from us have "St_metrics 3 (Some 200) 2 \<in> set (take 1 (fst (app (Workbook scenario) (Some ''US''))))"
    by simp
  then have "St_metrics 3 (Some 200) 2 \<in> set (fst (app (Workbook scenario) (Some ''US'')))"
    by (rule in_set_takeD)
  with rows us all show ?thesis by blast
qed

text \<open>
  C10, as stated, fails on a table whose prices are all blank. The table \<open>blank_price\<close>
  has a row, so the run does not stop and shows the overview; the mean price in it is
  taken over no value at all, and is undefined.
\<close>

theorem overview_blank_price:
  "blank_price \<noteq> []
   \<and> dropna (map Price_USD blank_price) = []
   \<and> take 1 (fst (app (Workbook blank_price) (Some ''All Countries''))) =
       [St_metrics 1 None 1]"
  by (simp add: blank_price_def app_def country_options_def metric_defs)

text \<open>
  C10, amended. A run that shows the overview numbers has loaded a table with at least
  one row. The mean price it shows is taken over the prices that are present: when
  there is one at least, it is their sum divided by their positive count; when every
  price is missing, it is undefined and nothing is divided.
\<close>

theorem overview_needs_rows:
  "St_metrics n a u \<in> set (fst (app src sel)) \<Longrightarrow>
     \<exists>df. src = Workbook df \<and> df \<noteq> [] \<and> n = length df \<and> 0 < n
        \<and> (dropna (map Price_USD df) = [] \<longrightarrow> a = None)
        \<and> (dropna (map Price_USD df) \<noteq> [] \<longrightarrow>
             0 < length (dropna (map Price_USD df))
             \<and> a = Some (sum_list (dropna (map Price_USD df))
                         / real (length (dropna (map Price_USD df)))))"
proof -
  assume "St_metrics n a u \<in> set (fst (app src sel))"
  then obtain df where df: "src = Workbook df" "df \<noteq> []" "n = total_jobs df" "a = avg_price df"
    using metrics_shown by blast
  then show ?thesis
    by (simp add: avg_price_def mean_def total_jobs_def)
qed

text \<open>
  The run on the three postings shows the overview; the table has 3 rows and 3 prices,
  and the mean shown is 600 over 3.
\<close>

theorem overview_needs_rows_witness:
  "St_metrics 3 (Some 200) 2 \<in> set (fst (app (Workbook scenario) (Some ''US'')))
   \<and> scenario \<noteq> []
   \<and> length scenario = 3
   \<and> dropna (map Price_USD scenario) = [100, 300, 200]
   \<and> Some 200 = Some (sum_list (dropna (map Price_USD scenario))
                        / real (length (dropna (map Price_USD scenario))))"
proof -
  have shown: "St_metrics 3 (Some 200) 2 \<in> set (fst (app (Workbook scenario) (Some ''US'')))"
    by (simp add: app_def country_options_def scenario_def metric_defs)
  have prices: "dropna (map Price_USD scenario) = [100, 300, 200]"
    by (simp add: scenario_def)
  from overview_needs_rows[OF shown] shown prices show ?thesis
    by simp
qed

text \<open>
  C7, as stated, fails when the workbook is read but has no rows: the run stops, but
  nothing at all has been put on the page, no error message either.
\<close>

theorem empty_workbook_stops_silently:
  "app (Workbook []) (Some ''All Countries'') = ([], Stopped)
   \<and> St_error \<notin> set (fst (app (Workbook []) (Some ''All Countries'')))"
  by (simp add: app_def)

text \<open>
  C7, amended. When the file is missing, the run shows the error message and stops.
  When the workbook has no rows, the run stops and shows nothing. When reading fails in
  another way, the exception is not caught and ends the run. In all three cases the
  page gets no overview and no chart: nothing is filtered or aggregated.
\<close>

theorem load_failure_stops:
  "app File_missing sel = ([St_error], Stopped)
   \<and> app (Workbook []) sel = ([], Stopped)
   \<and> app Read_failure sel = ([], Raised Read_error)"
  by (simp add: app_def)

section \<open>The three postings\<close>

text \<open>
  C8. On the three postings the overview is 3 jobs, a mean price of 200 and 2
  countries. Filtered to the US, the category table maps "Writing" to (100, 0.8) and
  "Dev" to (300, 0.2), and the job type table counts "Fixed" once and "Hourly" once.
\<close>

theorem scenario_values:
  "total_jobs scenario = 3
   \<and> avg_price scenario = Some 200
   \<and> unique_countries scenario = 2
   \<and> market_analysis (df_filtered scenario (Some ''US'')) =
       [(''Dev'', Some 300, Some 0.2), (''Writing'', Some 100, Some 0.8)]
   \<and> map_of (market_analysis (df_filtered scenario (Some ''US''))) ''Writing'' =
       Some (Some 100, Some 0.8)
   \<and> map_of (market_analysis (df_filtered scenario (Some ''US''))) ''Dev'' =
       Some (Some 300, Some 0.2)
   \<and> set (job_type_counts (df_filtered scenario (Some ''US''))) = {(''Fixed'', 1), (''Hourly'', 1)}
   \<and> length (job_type_counts (df_filtered scenario (Some ''US''))) = 2"
proof -
  have kept: "df_filtered scenario (Some ''US'') = take 2 scenario"
    by (simp add: scenario_def filter_defs)
  have overview: "total_jobs scenario = 3" "avg_price scenario = Some 200"
    "unique_countries scenario = 2"
    by (simp_all add: scenario_def metric_defs)
  have tbl: "market_analysis (take 2 scenario) =
      [(''Dev'', Some 300, Some 0.2), (''Writing'', Some 100, Some 0.8)]"
    by (simp add: scenario_def agg_defs)
  have jobs: "job_type_counts (take 2 scenario) = [(''Fixed'', 1), (''Hourly'', 1)]"
    by (simp add: scenario_def count_defs)
  show ?thesis
    by (simp add: kept overview tbl jobs)
qed

end
